theory Spec2Isabelle
  imports Main "HOL-Library.Char_ord" "HOL-Library.List_Lexorder"
begin

section \<open>Dates and time-of-day strings\<close>

text \<open>
  A JavaScript \<open>Date\<close> is its timestamp: milliseconds since the epoch, an \<open>int\<close>. A date
  field that has been given no value (\<open>undefined\<close>) is \<open>None\<close>. Local time is taken to be
  UTC without daylight saving, so that \<open>setHours\<close> and \<open>setMinutes\<close> are plain arithmetic
  on the timestamp.
\<close>

definition startOfDay :: "int \<Rightarrow> int" where
  "startOfDay d = d - d mod 86400000"

text \<open>\<open>d.setHours(h, m, 0, 0)\<close>\<close>

definition setHours :: "int \<Rightarrow> int \<Rightarrow> int \<Rightarrow> int" where
  "setHours d h m = startOfDay d + h * 3600000 + m * 60000"

text \<open>\<open>d.setHours(23, 59, 59, 999)\<close>\<close>

definition endOfDay :: "int \<Rightarrow> int" where
  "endOfDay d = startOfDay d + 86399999"

text \<open>\<open>d.getDay()\<close>: 0 is Sunday; the first of January 1970 was a Thursday.\<close>

definition getDay :: "int \<Rightarrow> nat" where
  "getDay d = nat ((d div 86400000 + 4) mod 7)"

text \<open>\<open>s.split(':')\<close>\<close>

fun split_colon :: "string \<Rightarrow> string list" where
  "split_colon [] = [[]]"
| "split_colon (c # cs) =
     (if c = CHR '':'' then [] # split_colon cs
      else (case split_colon cs of
              [] \<Rightarrow> [[c]]
            | p # ps \<Rightarrow> (c # p) # ps))"

definition digit_of :: "char \<Rightarrow> nat option" where
  "digit_of c =
     (let n = (of_char c :: nat) in if 48 \<le> n \<and> n \<le> 57 then Some (n - 48) else None)"

fun digits_val :: "nat \<Rightarrow> string \<Rightarrow> nat option" where
  "digits_val acc [] = Some acc"
| "digits_val acc (c # cs) =
     (case digit_of c of
        None \<Rightarrow> None
      | Some k \<Rightarrow> digits_val (10 * acc + k) cs)"

text \<open>
  \<open>Number(s)\<close> on the strings the schemas let through: a run of decimal digits is its
  value, the empty string is 0, and anything else is \<open>NaN\<close>, which is \<open>None\<close>.
\<close>

definition Number :: "string \<Rightarrow> int option" where
  "Number s = map_option int (digits_val 0 s)"

text \<open>
  \<open>const [hours, minutes] = s.split(':').map(Number)\<close>: the first two parts. A missing or
  non-numeric part makes every date computed from it invalid; that is \<open>None\<close>.
\<close>

definition parse_hm :: "string \<Rightarrow> (int \<times> int) option" where
  "parse_hm s =
     (case map Number (split_colon s) of
        Some h # Some m # rest \<Rightarrow> Some (h, m)
      | _ \<Rightarrow> None)"

definition digit_char :: "nat \<Rightarrow> char" where
  "digit_char k = ''0123456789'' ! (k mod 10)"

text \<open>\<open>n.toString()\<close> for a natural number.\<close>

fun toString :: "nat \<Rightarrow> string" where
  "toString n = (if n < 10 then [digit_char n] else toString (n div 10) @ [digit_char n])"

declare toString.simps [simp del]

text \<open>\<open>s.padStart(2, '0')\<close>\<close>

definition padStart2 :: "string \<Rightarrow> string" where
  "padStart2 s = replicate (2 - length s) CHR ''0'' @ s"

text \<open>\<open>d.toTimeString().slice(0, 5)\<close>: the local time of day as \<open>HH:MM\<close>.\<close>

definition timeString_of :: "int \<Rightarrow> string" where
  "timeString_of d =
     padStart2 (toString (nat ((d mod 86400000) div 3600000))) @ '':''
     @ padStart2 (toString (nat ((d mod 3600000) div 60000)))"

text \<open>The \<open>match\<close> validator of \<open>time\<close>: \<open>/^([01]?[0-9]|2[0-3]):[0-5][0-9]$/\<close>.\<close>

definition is_digit :: "char \<Rightarrow> bool" where
  "is_digit c = (c \<in> set ''0123456789'')"

fun match_time :: "string \<Rightarrow> bool" where
  "match_time [h, c, m1, m2] =
     (is_digit h \<and> c = CHR '':'' \<and> m1 \<in> set ''012345'' \<and> is_digit m2)"
| "match_time [h1, h2, c, m1, m2] =
     (((h1 \<in> set ''01'' \<and> is_digit h2) \<or> (h1 = CHR ''2'' \<and> h2 \<in> set ''0123''))
      \<and> c = CHR '':'' \<and> m1 \<in> set ''012345'' \<and> is_digit m2)"
| "match_time s = False"

section \<open>The booking model\<close>

datatype status = Pending | Confirmed | InProgress | Completed | Cancelled

datatype rescheduler = ByUser | ByCustomer | BySystem

text \<open>
  The fields of \<open>bookingSchema\<close> that the scheduling operations read or write. The display
  constants (\<open>timezone\<close>, \<open>calendarColor\<close>, \<open>isAllDay\<close>, \<open>isRecurring\<close>, \<open>recurringRule\<close>) are
  never touched by them and are left out. \<open>bid\<close> is \<open>_id\<close> and \<open>bnotes\<close> is \<open>notes\<close>. The
  last field, \<open>endTime\<close>, is not a path of the schema: it is what \<open>booking.endTime\<close>
  evaluates to where the recommendation service reads it, and a document of this schema
  yields \<open>undefined\<close>.
\<close>

record booking =
  bid :: nat
  userId :: nat
  customerId :: nat
  serviceId :: nat
  date :: int
  time :: string
  duration :: int
  status :: status
  bnotes :: "string option"
  totalAmount :: int
  paymentStatus :: string
  paymentMethod :: string
  startDateTime :: "int option"
  endDateTime :: "int option"
  hasConflicts :: bool
  conflictsWith :: "nat list"
  originalStartDateTime :: "int option"
  originalEndDateTime :: "int option"
  rescheduledAt :: "int option"
  rescheduledBy :: "rescheduler option"
  rescheduleReason :: "string option"
  endTime :: "string option"

text \<open>
  Query operators on a date path. A stored date compares with an operand by value. An
  operand that is \<open>undefined\<close> is sent as \<open>null\<close>, and \<open>null\<close> compares only with \<open>null\<close>:
  \<open>$lte\<close> and \<open>$gte\<close> then match an absent field, \<open>$lt\<close> and \<open>$gt\<close> match nothing.
\<close>

fun q_lte :: "int option \<Rightarrow> int option \<Rightarrow> bool" where
  "q_lte (Some x) (Some v) = (x \<le> v)"
| "q_lte None None = True"
| "q_lte x v = False"

fun q_gte :: "int option \<Rightarrow> int option \<Rightarrow> bool" where
  "q_gte (Some x) (Some v) = (x \<ge> v)"
| "q_gte None None = True"
| "q_gte x v = False"

fun q_lt :: "int option \<Rightarrow> int option \<Rightarrow> bool" where
  "q_lt (Some x) (Some v) = (x < v)"
| "q_lt x v = False"

fun q_gt :: "int option \<Rightarrow> int option \<Rightarrow> bool" where
  "q_gt (Some x) (Some v) = (x > v)"
| "q_gt x v = False"

text \<open>
  The four objects of the \<open>$or\<close> of \<open>checkConflicts\<close>, in the order of the source; \<open>s\<close> and
  \<open>e\<close> are \<open>this.startDateTime\<close> and \<open>this.endDateTime\<close>, \<open>b\<close> is a stored booking.
\<close>

definition starts_during :: "int option \<Rightarrow> int option \<Rightarrow> booking \<Rightarrow> bool" where
  "starts_during s e b = (q_lte (startDateTime b) s \<and> q_gt (endDateTime b) s)"

definition ends_during :: "int option \<Rightarrow> int option \<Rightarrow> booking \<Rightarrow> bool" where
  "ends_during s e b = (q_lt (startDateTime b) e \<and> q_gte (endDateTime b) e)"

definition contains_existing :: "int option \<Rightarrow> int option \<Rightarrow> booking \<Rightarrow> bool" where
  "contains_existing s e b = (q_gte (startDateTime b) s \<and> q_lte (endDateTime b) e)"

definition existing_contains :: "int option \<Rightarrow> int option \<Rightarrow> booking \<Rightarrow> bool" where
  "existing_contains s e b = (q_lte (startDateTime b) s \<and> q_gte (endDateTime b) e)"

definition four_case :: "int option \<Rightarrow> int option \<Rightarrow> booking \<Rightarrow> bool" where
  "four_case s e b =
     (starts_during s e b \<or> ends_during s e b \<or> contains_existing s e b
      \<or> existing_contains s e b)"

text \<open>\<open>status: { $in: ['pending', 'confirmed', 'in-progress'] }\<close>\<close>

definition active :: "status \<Rightarrow> bool" where
  "active s = (s = Pending \<or> s = Confirmed \<or> s = InProgress)"

definition conflict_query :: "booking \<Rightarrow> booking \<Rightarrow> bool" where
  "conflict_query this b =
     (userId b = userId this \<and> bid b \<noteq> bid this \<and> active (status b)
      \<and> four_case (startDateTime this) (endDateTime this) b)"

definition checkConflicts :: "booking list \<Rightarrow> booking \<Rightarrow> booking list" where
  "checkConflicts db this = filter (conflict_query this) db"

section \<open>Documents and saving\<close>

text \<open>
  A document in memory is a booking together with what Mongoose tracks about it: whether it
  is new, and which paths have been assigned since it was built or loaded. Only the five
  paths that the hook asks \<open>isModified\<close> about are tracked; an assignment to one of them
  marks it.
\<close>

datatype path = PDate | PTime | PDuration | PStartDateTime | PEndDateTime

record document =
  doc :: booking
  isNew :: bool
  modifiedPaths :: "path set"

datatype error =
    NotFound
  | ConflictError "nat list"
  | SlotBooked
  | ValidationError string
  | TypeError

text \<open>
  \<open>new Booking({userId, customerId, serviceId, date, time, duration, totalAmount, notes})\<close>
  with \<open>_id\<close> the fresh identifier \<open>oid\<close>: the schema defaults fill \<open>status\<close>,
  \<open>paymentStatus\<close>, \<open>paymentMethod\<close> and \<open>hasConflicts\<close>; \<open>startDateTime\<close> and
  \<open>endDateTime\<close> are not given and stay \<open>undefined\<close> until the hook sets them.
\<close>

definition new_Booking ::
  "nat \<Rightarrow> nat \<Rightarrow> nat \<Rightarrow> nat \<Rightarrow> int \<Rightarrow> string \<Rightarrow> int \<Rightarrow> int \<Rightarrow> string option \<Rightarrow> document" where
  "new_Booking oid uid cust svc d t dur amount n =
     \<lparr>doc = \<lparr>bid = oid, userId = uid, customerId = cust, serviceId = svc, date = d, time = t,
             duration = dur, status = Pending, bnotes = n, totalAmount = amount,
             paymentStatus = ''pending'', paymentMethod = ''cash'',
             startDateTime = None, endDateTime = None, hasConflicts = False,
             conflictsWith = [], originalStartDateTime = None, originalEndDateTime = None,
             rescheduledAt = None, rescheduledBy = None, rescheduleReason = None,
             endTime = None\<rparr>,
      isNew = True, modifiedPaths = {PDate, PTime, PDuration}\<rparr>"

text \<open>A booking as \<open>findOne\<close> returns it.\<close>

definition loaded :: "booking \<Rightarrow> document" where
  "loaded b = \<lparr>doc = b, isNew = False, modifiedPaths = {}\<rparr>"

text \<open>
  The schema validators that can fail on a booking: the first failing path, or \<open>None\<close>.
  (\<open>status\<close> is validated where a request supplies it as a string; the \<open>trim\<close> setter of
  \<open>notes\<close> is left out.)
\<close>

definition validate :: "booking \<Rightarrow> string option" where
  "validate b =
     (if \<not> match_time (time b) then Some ''time''
      else if duration b < 15 then Some ''duration''
      else if (case bnotes b of Some n \<Rightarrow> length n > 500 | None \<Rightarrow> False) then Some ''notes''
      else if totalAmount b < 0 then Some ''totalAmount''
      else if paymentStatus b \<notin> set [''pending'', ''paid'', ''overdue'', ''cancelled'']
        then Some ''paymentStatus''
      else if paymentMethod b \<notin> set [''cash'', ''card'', ''bank_transfer'', ''other'']
        then Some ''paymentMethod''
      else None)"

text \<open>\<open>bookingSchema.pre('save')\<close>, run against the stored bookings \<open>db\<close>.\<close>

definition pre_save :: "booking list \<Rightarrow> document \<Rightarrow> error + document" where
  "pre_save db d =
     (case (if PDate \<in> modifiedPaths d \<or> PTime \<in> modifiedPaths d \<or> PDuration \<in> modifiedPaths d
            then (case parse_hm (time (doc d)) of
                    None \<Rightarrow> Inl (ValidationError ''startDateTime'')
                  | Some (hours, minutes) \<Rightarrow>
                      let s = setHours (date (doc d)) hours minutes;
                          e = s + duration (doc d) * 60000
                      in Inr (d\<lparr>doc := (doc d)\<lparr>startDateTime := Some s, endDateTime := Some e\<rparr>,
                               modifiedPaths :=
                                 modifiedPaths d \<union> {PStartDateTime, PEndDateTime}\<rparr>))
            else Inr d) of
        Inl err \<Rightarrow> Inl err
      | Inr d1 \<Rightarrow>
          if isNew d1 \<or> PStartDateTime \<in> modifiedPaths d1 \<or> PEndDateTime \<in> modifiedPaths d1
          then let conflicts = checkConflicts db (doc d1)
               in Inr (d1\<lparr>doc := (doc d1)\<lparr>hasConflicts := conflicts \<noteq> [],
                                             conflictsWith := map bid conflicts\<rparr>\<rparr>)
          else Inr d1)"

text \<open>
  \<open>document.save()\<close>: the validators, then the hook, then the write (an insert for a new
  document, a replacement of the stored booking of the same \<open>_id\<close> otherwise). It returns
  the stored bookings and the booking as saved. \<open>required\<close> on \<open>startDateTime\<close> and
  \<open>endDateTime\<close> is taken to be met by the hook's assignment.
\<close>

definition save :: "booking list \<Rightarrow> document \<Rightarrow> error + (booking list \<times> booking)" where
  "save db d =
     (case validate (doc d) of
        Some p \<Rightarrow> Inl (ValidationError p)
      | None \<Rightarrow>
          (case pre_save db d of
             Inl err \<Rightarrow> Inl err
           | Inr d' \<Rightarrow>
               Inr (if isNew d' then db @ [doc d']
                    else map (\<lambda>b. if bid b = bid (doc d') then doc d' else b) db,
                    doc d')))"

text \<open>
  A booking with the interval that the hook computes from its date, its duration and the
  parsed time \<open>h:m\<close>.
\<close>

definition recomputed :: "booking \<Rightarrow> int \<Rightarrow> int \<Rightarrow> booking" where
  "recomputed b h m =
     b\<lparr>startDateTime := Some (setHours (date b) h m),
       endDateTime := Some (setHours (date b) h m + duration b * 60000)\<rparr>"

text \<open>\<open>bookingSchema.methods.reschedule\<close>; \<open>now\<close> is the clock read by \<open>new Date()\<close>.\<close>

definition reschedule ::
  "booking list \<Rightarrow> int \<Rightarrow> document \<Rightarrow> int \<Rightarrow> string \<Rightarrow> rescheduler
   \<Rightarrow> error + (booking list \<times> booking)" where
  "reschedule db now d newStartDateTime reason by_whom =
     (let b = doc d;
          newEndDateTime = newStartDateTime + duration b * 60000;
          b' = b\<lparr>originalStartDateTime := startDateTime b,
                 originalEndDateTime := endDateTime b,
                 startDateTime := Some newStartDateTime,
                 endDateTime := Some newEndDateTime,
                 date := startOfDay newStartDateTime,
                 time := timeString_of newStartDateTime,
                 rescheduledAt := Some now,
                 rescheduledBy := Some by_whom,
                 rescheduleReason := Some reason\<rparr>
      in save db (d\<lparr>doc := b',
                     modifiedPaths :=
                       modifiedPaths d \<union> {PStartDateTime, PEndDateTime, PDate, PTime}\<rparr>))"

section \<open>The routes\<close>

record customer =
  c_id :: nat
  c_userId :: nat
  c_name :: string
  c_email :: string
  c_phone :: string
  c_address :: "string option"
  c_notes :: "string option"
  totalBookings :: int
  lastBooking :: "int option"

record service =
  s_id :: nat
  s_userId :: nat
  s_duration :: int
  s_price :: int

text \<open>
  One day of \<open>businessHours\<close> in \<open>userSchema\<close>: \<open>h_start\<close> and \<open>h_end\<close> are its \<open>start\<close> and
  \<open>end\<close> strings (optional in the schema), \<open>isOpen\<close> has a default and is always set.
  \<open>h_open\<close> and \<open>h_close\<close> are not paths of the schema: they are what \<open>.open\<close> and \<open>.close\<close>
  evaluate to where the recommendation service reads them, and a document of this schema
  yields \<open>undefined\<close> for both.
\<close>

record dayHours =
  h_start :: "string option"
  h_end :: "string option"
  isOpen :: bool
  h_open :: "string option"
  h_close :: "string option"

record week_hours =
  sunday :: "dayHours option"
  monday :: "dayHours option"
  tuesday :: "dayHours option"
  wednesday :: "dayHours option"
  thursday :: "dayHours option"
  friday :: "dayHours option"
  saturday :: "dayHours option"

record user =
  u_id :: nat
  businessHours :: "week_hours option"

text \<open>The collections the routes read and write.\<close>

record state =
  bookings :: "booking list"
  customers :: "customer list"
  services :: "service list"
  users :: "user list"

text \<open>
  \<open>Customer.findByIdAndUpdate(id, {$inc: {totalBookings: 1}, lastBooking: new Date()})\<close>
\<close>

definition bump_customer :: "nat \<Rightarrow> int \<Rightarrow> customer list \<Rightarrow> customer list" where
  "bump_customer cid now cs =
     map (\<lambda>c. if c_id c = cid
               then c\<lparr>totalBookings := totalBookings c + 1, lastBooking := Some now\<rparr>
               else c) cs"

record create_request =
  rq_customerId :: nat
  rq_serviceId :: nat
  rq_date :: int
  rq_time :: string
  rq_notes :: "string option"

text \<open>
  \<open>POST /api/bookings\<close> for the authenticated provider \<open>uid\<close>. The route returns the
  collections as they are afterwards and the response: an error, or the booking created.
\<close>

definition create_booking ::
  "state \<Rightarrow> nat \<Rightarrow> nat \<Rightarrow> int \<Rightarrow> create_request \<Rightarrow> state \<times> (error + booking)" where
  "create_booking st uid oid now rq =
     (case (find (\<lambda>c. c_id c = rq_customerId rq \<and> c_userId c = uid) (customers st),
            find (\<lambda>s. s_id s = rq_serviceId rq \<and> s_userId s = uid) (services st)) of
        (Some c, Some s) \<Rightarrow>
          (let d = new_Booking oid uid (rq_customerId rq) (rq_serviceId rq) (rq_date rq)
                     (rq_time rq) (s_duration s) (s_price s) (rq_notes rq);
               conflicts = checkConflicts (bookings st) (doc d)
           in if conflicts \<noteq> [] then (st, Inl (ConflictError (map bid conflicts)))
              else (case save (bookings st) d of
                      Inl err \<Rightarrow> (st, Inl err)
                    | Inr (db', b) \<Rightarrow>
                        (st\<lparr>bookings := db',
                            customers := bump_customer (rq_customerId rq) now (customers st)\<rparr>,
                         Inr b)))
      | _ \<Rightarrow> (st, Inl NotFound))"

text \<open>
  \<open>PUT /api/bookings/:id/reschedule\<close>. The default reason is filled in by the route; the
  rescheduler is always \<open>'user'\<close>.
\<close>

definition reschedule_booking ::
  "state \<Rightarrow> nat \<Rightarrow> int \<Rightarrow> nat \<Rightarrow> int \<Rightarrow> string option \<Rightarrow> state \<times> (error + booking)" where
  "reschedule_booking st uid now ident newStartDateTime reason =
     (case find (\<lambda>b. bid b = ident \<and> userId b = uid) (bookings st) of
        None \<Rightarrow> (st, Inl NotFound)
      | Some b \<Rightarrow>
          (case reschedule (bookings st) now (loaded b) newStartDateTime
                  (case reason of None \<Rightarrow> ''Rescheduled via calendar'' | Some r \<Rightarrow> r) ByUser of
             Inl err \<Rightarrow> (st, Inl err)
           | Inr (db', b') \<Rightarrow> (st\<lparr>bookings := db'\<rparr>, Inr b')))"

text \<open>\<open>s.toLowerCase()\<close> on ASCII letters.\<close>

definition lower_char :: "char \<Rightarrow> char" where
  "lower_char c =
     (case map_of (zip ''ABCDEFGHIJKLMNOPQRSTUVWXYZ'' ''abcdefghijklmnopqrstuvwxyz'') c of
        None \<Rightarrow> c
      | Some l \<Rightarrow> l)"

definition toLowerCase :: "string \<Rightarrow> string" where
  "toLowerCase s = map lower_char s"

text \<open>A request string is truthy when it is present and not empty.\<close>

definition truthy :: "string option \<Rightarrow> bool" where
  "truthy x = (case x of None \<Rightarrow> False | Some s \<Rightarrow> s \<noteq> [])"

record customer_info =
  ci_name :: "string option"
  ci_email :: string
  ci_phone :: "string option"
  ci_address :: "string option"
  ci_notes :: "string option"

record public_request =
  pr_businessId :: nat
  pr_serviceId :: nat
  pr_date :: int
  pr_time :: string
  pr_customerInfo :: customer_info

text \<open>
  The find-or-create of the customer in the public route; \<open>new_cid\<close> is the identifier a
  created customer gets. Of the Customer schema's validators only \<open>required\<close> on \<open>name\<close>
  and \<open>phone\<close> is modelled; the strings are taken to pass the others.
\<close>

definition find_or_create_customer ::
  "customer list \<Rightarrow> nat \<Rightarrow> nat \<Rightarrow> customer_info \<Rightarrow> error + (customer list \<times> customer)" where
  "find_or_create_customer cs biz new_cid info =
     (case find (\<lambda>c. c_userId c = biz \<and> c_email c = toLowerCase (ci_email info)) cs of
        None \<Rightarrow>
          (if \<not> truthy (ci_name info) then Inl (ValidationError ''name'')
           else if \<not> truthy (ci_phone info) then Inl (ValidationError ''phone'')
           else let c = \<lparr>c_id = new_cid, c_userId = biz, c_name = the (ci_name info),
                          c_email = toLowerCase (ci_email info), c_phone = the (ci_phone info),
                          c_address = ci_address info, c_notes = ci_notes info,
                          totalBookings = 0, lastBooking = None\<rparr>
                in Inr (cs @ [c], c))
      | Some c \<Rightarrow>
          (let c' = c\<lparr>c_name := (if truthy (ci_name info) then the (ci_name info) else c_name c),
                       c_phone := (if truthy (ci_phone info) then the (ci_phone info) else c_phone c),
                       c_address := (if truthy (ci_address info) then ci_address info
                                     else c_address c),
                       c_notes := (if truthy (ci_notes info) then ci_notes info else c_notes c)\<rparr>
           in Inr (map (\<lambda>x. if c_id x = c_id c then c' else x) cs, c')))"

text \<open>
  \<open>POST /api/public/bookings\<close>. Its conflict check is a \<open>findOne\<close> on the provider, the
  date, the time string and \<open>status: { $nin: ['cancelled', 'completed'] }\<close>.
\<close>

definition create_public_booking ::
  "state \<Rightarrow> nat \<Rightarrow> nat \<Rightarrow> int \<Rightarrow> public_request \<Rightarrow> state \<times> (error + booking)" where
  "create_public_booking st oid new_cid now rq =
     (case (find (\<lambda>u. u_id u = pr_businessId rq) (users st),
            find (\<lambda>s. s_id s = pr_serviceId rq \<and> s_userId s = pr_businessId rq) (services st)) of
        (Some u, Some s) \<Rightarrow>
          (case find (\<lambda>b. userId b = pr_businessId rq \<and> date b = pr_date rq
                           \<and> time b = pr_time rq
                           \<and> status b \<noteq> Cancelled \<and> status b \<noteq> Completed) (bookings st) of
             Some existingBooking \<Rightarrow> (st, Inl SlotBooked)
           | None \<Rightarrow>
               (case find_or_create_customer (customers st) (pr_businessId rq) new_cid
                       (pr_customerInfo rq) of
                  Inl err \<Rightarrow> (st, Inl err)
                | Inr (cs', c) \<Rightarrow>
                    (case save (bookings st)
                            (new_Booking oid (pr_businessId rq) (c_id c) (pr_serviceId rq)
                               (pr_date rq) (pr_time rq) (s_duration s) (s_price s)
                               (ci_notes (pr_customerInfo rq))) of
                       Inl err \<Rightarrow> (st\<lparr>customers := cs'\<rparr>, Inl err)
                     | Inr (db', b) \<Rightarrow>
                         (st\<lparr>bookings := db', customers := bump_customer (c_id c) now cs'\<rparr>,
                          Inr b))))
      | _ \<Rightarrow> (st, Inl NotFound))"

text \<open>The \<open>enum\<close> of \<open>status\<close>.\<close>

definition parse_status :: "string \<Rightarrow> status option" where
  "parse_status s =
     (if s = ''pending'' then Some Pending
      else if s = ''confirmed'' then Some Confirmed
      else if s = ''in-progress'' then Some InProgress
      else if s = ''completed'' then Some Completed
      else if s = ''cancelled'' then Some Cancelled
      else None)"

record update_request =
  up_date :: "int option"
  up_time :: "string option"
  up_status :: "string option"
  up_notes :: "string option"
  up_paymentStatus :: "string option"
  up_paymentMethod :: "string option"

text \<open>
  \<open>PUT /api/bookings/:id\<close>. A status string outside the \<open>enum\<close> is refused by the
  validators when the document is saved.
\<close>

definition update_booking ::
  "state \<Rightarrow> nat \<Rightarrow> nat \<Rightarrow> update_request \<Rightarrow> state \<times> (error + booking)" where
  "update_booking st uid ident rq =
     (case find (\<lambda>b. bid b = ident \<and> userId b = uid) (bookings st) of
        None \<Rightarrow> (st, Inl NotFound)
      | Some b \<Rightarrow>
          (let moving = (up_date rq \<noteq> None \<or> truthy (up_time rq));
               d1 = (if moving
                     then (loaded b)\<lparr>doc := b\<lparr>date := (case up_date rq of Some x \<Rightarrow> x
                                                           | None \<Rightarrow> date b),
                                                  time := (if truthy (up_time rq)
                                                           then the (up_time rq) else time b)\<rparr>,
                                       modifiedPaths := {PDate, PTime}\<rparr>
                     else loaded b);
               conflicts = (if moving then checkConflicts (bookings st) (doc d1) else [])
           in if conflicts \<noteq> [] then (st, Inl (ConflictError (map bid conflicts)))
              else if truthy (up_status rq) \<and> parse_status (the (up_status rq)) = None
                then (st, Inl (ValidationError ''status''))
              else
                (let b2 = (doc d1)
                       \<lparr>status := (if truthy (up_status rq)
                                    then the (parse_status (the (up_status rq)))
                                    else status (doc d1)),
                        bnotes := (if up_notes rq \<noteq> None then up_notes rq else bnotes (doc d1)),
                        paymentStatus := (if truthy (up_paymentStatus rq)
                                          then the (up_paymentStatus rq)
                                          else paymentStatus (doc d1)),
                        paymentMethod := (if truthy (up_paymentMethod rq)
                                          then the (up_paymentMethod rq)
                                          else paymentMethod (doc d1))\<rparr>
                 in case save (bookings st) (d1\<lparr>doc := b2\<rparr>) of
                      Inl err \<Rightarrow> (st, Inl err)
                    | Inr (db', b') \<Rightarrow> (st\<lparr>bookings := db'\<rparr>, Inr b'))))"

section \<open>The interval model of the specification\<close>

record interval =
  istart :: int
  iend :: int

text \<open>The predicate of section 4.1, written from the specification's words.\<close>

definition overlaps :: "interval \<Rightarrow> interval \<Rightarrow> bool" where
  "overlaps a b = (istart a < iend b \<and> istart b < iend a)"




section \<open>Available time slots\<close>

text \<open>
  An element of the array that \<open>getAvailableTimeSlots\<close> returns; \<open>sl_endTime\<close> is its
  \<open>endTime\<close>.
\<close>

record slot =
  startTime :: int
  sl_endTime :: int
  timeString :: string

text \<open>\<open>user.businessHours[names[date.getDay()]]\<close>\<close>

definition day_hours :: "week_hours \<Rightarrow> nat \<Rightarrow> dayHours option" where
  "day_hours w n =
     (if n = 0 then sunday w else if n = 1 then monday w else if n = 2 then tuesday w
      else if n = 3 then wednesday w else if n = 4 then thursday w
      else if n = 5 then friday w else saturday w)"

text \<open>
  Comparisons of a date with a date read from a booking; one with \<open>undefined\<close> is false.
\<close>

definition date_lt :: "int \<Rightarrow> int option \<Rightarrow> bool" where
  "date_lt x y = (case y of None \<Rightarrow> False | Some v \<Rightarrow> x < v)"

definition date_gt :: "int \<Rightarrow> int option \<Rightarrow> bool" where
  "date_gt x y = (case y of None \<Rightarrow> False | Some v \<Rightarrow> x > v)"

text \<open>The callback of \<open>existingBookings.some\<close>.\<close>

definition slot_conflict :: "int \<Rightarrow> int \<Rightarrow> booking \<Rightarrow> bool" where
  "slot_conflict currentTime slotEndTime b =
     (date_lt currentTime (endDateTime b) \<and> date_gt slotEndTime (startDateTime b))"

text \<open>
  The \<open>while\<close> loop: \<open>acc\<close> is \<open>availableSlots\<close>, \<open>cur\<close> is \<open>currentTime\<close>, which each round
  moves on by 30 minutes.
\<close>

function slot_loop :: "booking list \<Rightarrow> int \<Rightarrow> int \<Rightarrow> int \<Rightarrow> slot list \<Rightarrow> slot list" where
  "slot_loop existingBookings dur businessEndTime cur acc =
     (if cur < businessEndTime
      then (let slotEndTime = cur + dur * 60000;
                hasConflict = list_ex (slot_conflict cur slotEndTime) existingBookings
            in slot_loop existingBookings dur businessEndTime (cur + 1800000)
                 (if \<not> hasConflict \<and> slotEndTime \<le> businessEndTime
                  then acc @ [\<lparr>startTime = cur, sl_endTime = slotEndTime,
                               timeString = timeString_of cur\<rparr>]
                  else acc))
      else acc)"
  by pat_completeness auto
termination
  by (relation "measure (\<lambda>(ex, dur, bend, cur, acc). nat (bend - cur))") auto

declare slot_loop.simps [simp del]

text \<open>
  The bookings the slots are checked against: those of the provider that start on the
  day and are pending, confirmed or in progress. (The query's sort is left out: \<open>some\<close>
  does not depend on the order.)
\<close>

definition existing_on :: "booking list \<Rightarrow> nat \<Rightarrow> int \<Rightarrow> booking list" where
  "existing_on db uid d =
     filter (\<lambda>b. userId b = uid
                  \<and> q_gte (startDateTime b) (Some (startOfDay d))
                  \<and> q_lte (startDateTime b) (Some (endOfDay d))
                  \<and> active (status b)) db"

text \<open>
  \<open>bookingSchema.statics.getAvailableTimeSlots\<close>. Splitting an absent \<open>start\<close> or \<open>end\<close>
  string throws; a string that does not parse gives an invalid date, the loop condition
  is false at once, and the result is empty.
\<close>

definition getAvailableTimeSlots ::
  "user list \<Rightarrow> booking list \<Rightarrow> nat \<Rightarrow> int \<Rightarrow> int \<Rightarrow> error + slot list" where
  "getAvailableTimeSlots us db uid d dur =
     (case find (\<lambda>u. u_id u = uid) us of
        None \<Rightarrow> Inr []
      | Some u \<Rightarrow>
          (case businessHours u of
             None \<Rightarrow> Inr []
           | Some w \<Rightarrow>
               (case day_hours w (getDay d) of
                  None \<Rightarrow> Inr []
                | Some dayH \<Rightarrow>
                    if \<not> isOpen dayH then Inr []
                    else (case (h_start dayH, h_end dayH) of
                            (Some st, Some en) \<Rightarrow>
                              (case (parse_hm st, parse_hm en) of
                                 (Some (startHour, startMinute), Some (endHour, endMinute)) \<Rightarrow>
                                   Inr (slot_loop (existing_on db uid d) dur
                                          (setHours d endHour endMinute)
                                          (setHours d startHour startMinute) [])
                               | _ \<Rightarrow> Inr [])
                          | _ \<Rightarrow> Inl TypeError))))"

text \<open>
  \<open>GET /api/bookings/available-slots/:date\<close>: the duration defaults to 60; the response
  body carries the date and the slots.
\<close>

definition available_slots ::
  "state \<Rightarrow> nat \<Rightarrow> int \<Rightarrow> int option \<Rightarrow> error + (int \<times> slot list)" where
  "available_slots st uid requestedDate dur =
     (case getAvailableTimeSlots (users st) (bookings st) uid requestedDate
             (case dur of None \<Rightarrow> 60 | Some n \<Rightarrow> n) of
        Inl err \<Rightarrow> Inl err
      | Inr availableSlots \<Rightarrow> Inr (requestedDate, availableSlots))"





section \<open>The recommendation service\<close>

text \<open>An element of the array that \<open>generateTimeSlots\<close> returns.\<close>

record time_slot =
  t_time :: string
  t_endTime :: string
  minutes :: int
  endMinutes :: int











record score_factors =
  availability :: int
  customerPreference :: int
  businessOptimal :: int
  historicalDemand :: int
  bufferTime :: int



record recommendation =
  r_time :: string
  r_endTime :: string
  score :: int
  factors :: score_factors
  reason :: string










text \<open>
  The start and the interval of a recommendation, and the interval of an existing booking
  as the service reads it (from \<open>time\<close> and \<open>endTime\<close>), in minutes of the day.
\<close>





section \<open>Example data\<close>

text \<open>
  Monday 15 January 2024, 00:00. The examples are about provider 1, who has one customer (7)
  and one service (3) of 60 minutes; \<open>stored_booking\<close> is a booking of theirs on that day as
  a save stores it, given its start in minutes after midnight.
\<close>

definition jan15 :: int where
  "jan15 = 1705276800000"

definition stored_booking :: "nat \<Rightarrow> string \<Rightarrow> int \<Rightarrow> int \<Rightarrow> status \<Rightarrow> booking" where
  "stored_booking oid t start_min dur st =
     \<lparr>bid = oid, userId = 1, customerId = 7, serviceId = 3, date = jan15, time = t,
      duration = dur, status = st, bnotes = None, totalAmount = 500,
      paymentStatus = ''pending'', paymentMethod = ''cash'',
      startDateTime = Some (jan15 + start_min * 60000),
      endDateTime = Some (jan15 + (start_min + dur) * 60000),
      hasConflicts = False, conflictsWith = [], originalStartDateTime = None,
      originalEndDateTime = None, rescheduledAt = None, rescheduledBy = None,
      rescheduleReason = None, endTime = None\<rparr>"

definition ex_state :: "booking list \<Rightarrow> state" where
  "ex_state bs =
     \<lparr>bookings = bs,
      customers = [\<lparr>c_id = 7, c_userId = 1, c_name = ''Abebe'', c_email = ''abebe@example.org'',
                    c_phone = ''0911000000'', c_address = None, c_notes = None,
                    totalBookings = 0, lastBooking = None\<rparr>],
      services = [\<lparr>s_id = 3, s_userId = 1, s_duration = 60, s_price = 500\<rparr>],
      users = [\<lparr>u_id = 1, businessHours = None\<rparr>]\<rparr>"



text \<open>
  Booking 101 as it is stored after it was moved from 14:00 to 10:30 at 23:00 of the day
  before, while booking 100 holds 10:00 to 11:00.
\<close>

definition rescheduled_example :: booking where
  "rescheduled_example =
     (stored_booking 101 ''10:30'' 630 60 Pending)
       \<lparr>hasConflicts := True, conflictsWith := [100],
        originalStartDateTime := Some (jan15 + 840 * 60000),
        originalEndDateTime := Some (jan15 + 900 * 60000),
        rescheduledAt := Some (jan15 - 3600000), rescheduledBy := Some ByUser,
        rescheduleReason := Some ''Rescheduled via calendar''\<rparr>"

text \<open>A request to \<open>PUT /api/bookings/:id\<close> that carries a status and nothing else.\<close>

definition status_only :: "string \<Rightarrow> update_request" where
  "status_only s =
     \<lparr>up_date = None, up_time = None, up_status = Some s, up_notes = None,
      up_paymentStatus = None, up_paymentMethod = None\<rparr>"

text \<open>
  The provider's week as the User schema stores it: closed on Sunday, 09:00 to 17:00 on
  the other days, and Monday as given.
\<close>

definition ex_day :: "bool \<Rightarrow> dayHours" where
  "ex_day is_open =
     \<lparr>h_start = Some ''09:00'', h_end = Some ''17:00'', isOpen = is_open,
      h_open = None, h_close = None\<rparr>"

definition ex_week :: "dayHours \<Rightarrow> week_hours" where
  "ex_week mon =
     \<lparr>sunday = Some (ex_day False), monday = Some mon, tuesday = Some (ex_day True),
      wednesday = Some (ex_day True), thursday = Some (ex_day True),
      friday = Some (ex_day True), saturday = Some (ex_day True)\<rparr>"

definition ex_user :: "dayHours \<Rightarrow> user" where
  "ex_user mon = \<lparr>u_id = 1, businessHours = Some (ex_week mon)\<rparr>"






section \<open>Properties\<close>

lemmas time_defs = parse_hm_def Number_def digit_of_def setHours_def startOfDay_def
  timeString_of_def padStart2_def toString.simps digit_char_def is_digit_def

lemmas query_defs = checkConflicts_def conflict_query_def four_case_def starts_during_def
  ends_during_def contains_existing_def existing_contains_def active_def

lemmas save_defs = save_def validate_def pre_save_def new_Booking_def loaded_def Let_def

lemmas example_defs = ex_state_def stored_booking_def jan15_def

subsection \<open>The conflict query and the overlap predicate\<close>

lemma four_case_overlaps_aux:
  assumes "startDateTime b = Some bs" and "endDateTime b = Some be"
    and "s < e" and "bs < be"
  shows "four_case (Some s) (Some e) b
         \<longleftrightarrow> overlaps \<lparr>istart = s, iend = e\<rparr> \<lparr>istart = bs, iend = be\<rparr>"
proof
  assume "four_case (Some s) (Some e) b"
  then consider "starts_during (Some s) (Some e) b" | "ends_during (Some s) (Some e) b"
    | "contains_existing (Some s) (Some e) b" | "existing_contains (Some s) (Some e) b"
    unfolding four_case_def by blast
  then show "overlaps \<lparr>istart = s, iend = e\<rparr> \<lparr>istart = bs, iend = be\<rparr>"
  proof cases
    case 1
    then show ?thesis using assms by (simp add: starts_during_def overlaps_def)
  next
    case 2
    then show ?thesis using assms by (simp add: ends_during_def overlaps_def)
  next
    case 3
    then show ?thesis using assms by (simp add: contains_existing_def overlaps_def)
  next
    case 4
    then show ?thesis using assms by (simp add: existing_contains_def overlaps_def)
  qed
next
  assume ov: "overlaps \<lparr>istart = s, iend = e\<rparr> \<lparr>istart = bs, iend = be\<rparr>"
  then have lt: "s < be" "bs < e" by (simp_all add: overlaps_def)
  show "four_case (Some s) (Some e) b"
  proof (cases "bs \<le> s")
    case True
    then have "starts_during (Some s) (Some e) b"
      using assms lt by (simp add: starts_during_def)
    then show ?thesis by (simp add: four_case_def)
  next
    case False
    show ?thesis
    proof (cases "e \<le> be")
      case True
      then have "ends_during (Some s) (Some e) b"
        using assms lt by (simp add: ends_during_def)
      then show ?thesis by (simp add: four_case_def)
    next
      case False
      with \<open>\<not> bs \<le> s\<close> have "contains_existing (Some s) (Some e) b"
        using assms by (simp add: contains_existing_def)
      then show ?thesis by (simp add: four_case_def)
    qed
  qed
qed

text \<open>
  C4. For a proposal \<open>[s, e)\<close> and a stored booking \<open>[bs, be)\<close>, both well formed, the
  four-case disjunction of the conflict query (starts-during, ends-during,
  proposal-contains-existing, existing-contains-proposal, with the operators of the
  source) holds exactly when the half-open overlap predicate of the specification holds.
\<close>

theorem four_case_iff_overlaps:
  assumes "startDateTime b = Some bs" and "endDateTime b = Some be"
    and "s < e" and "bs < be"
  shows "(starts_during (Some s) (Some e) b \<or> ends_during (Some s) (Some e) b
          \<or> contains_existing (Some s) (Some e) b \<or> existing_contains (Some s) (Some e) b)
         \<longleftrightarrow> overlaps \<lparr>istart = s, iend = e\<rparr> \<lparr>istart = bs, iend = be\<rparr>"
  using four_case_overlaps_aux [OF assms] by (simp add: four_case_def)

text \<open>
  A proposal 10:30 to 11:30 against a stored 10:00 to 11:00 (both sides hold), and a
  proposal 11:00 to 12:00 against the same booking (neither holds: the end points touch).
\<close>

theorem four_case_iff_overlaps_witness:
  "(let b = stored_booking 100 ''10:00'' 600 60 Pending;
        s = jan15 + 630 * 60000; e = jan15 + 690 * 60000
    in (starts_during (Some s) (Some e) b \<or> ends_during (Some s) (Some e) b
        \<or> contains_existing (Some s) (Some e) b \<or> existing_contains (Some s) (Some e) b)
       \<and> overlaps \<lparr>istart = s, iend = e\<rparr>
                   \<lparr>istart = jan15 + 600 * 60000, iend = jan15 + 660 * 60000\<rparr>)
   \<and> (let b = stored_booking 100 ''10:00'' 600 60 Pending;
          s = jan15 + 660 * 60000; e = jan15 + 720 * 60000
      in \<not> (starts_during (Some s) (Some e) b \<or> ends_during (Some s) (Some e) b
             \<or> contains_existing (Some s) (Some e) b \<or> existing_contains (Some s) (Some e) b)
         \<and> \<not> overlaps \<lparr>istart = s, iend = e\<rparr>
                       \<lparr>istart = jan15 + 600 * 60000, iend = jan15 + 660 * 60000\<rparr>)"
proof -
  let ?b = "stored_booking 100 ''10:00'' 600 60 Pending"
  have bs: "startDateTime ?b = Some (jan15 + 600 * 60000)"
    and be: "endDateTime ?b = Some (jan15 + 660 * 60000)"
    by (simp_all add: stored_booking_def)
  have wf: "jan15 + 600 * 60000 < jan15 + 660 * 60000" by simp
  have o1: "overlaps \<lparr>istart = jan15 + 630 * 60000, iend = jan15 + 690 * 60000\<rparr>
                     \<lparr>istart = jan15 + 600 * 60000, iend = jan15 + 660 * 60000\<rparr>"
    by (simp add: overlaps_def)
  have o2: "\<not> overlaps \<lparr>istart = jan15 + 660 * 60000, iend = jan15 + 720 * 60000\<rparr>
                       \<lparr>istart = jan15 + 600 * 60000, iend = jan15 + 660 * 60000\<rparr>"
    by (simp add: overlaps_def)
  show ?thesis
    using four_case_iff_overlaps [OF bs be _ wf, of "jan15 + 630 * 60000" "jan15 + 690 * 60000"]
      four_case_iff_overlaps [OF bs be _ wf, of "jan15 + 660 * 60000" "jan15 + 720 * 60000"]
      o1 o2
    by (simp add: Let_def)
qed

subsection \<open>Saving a booking\<close>



lemma validate_duration: "validate b = None \<Longrightarrow> 15 \<le> duration b"
  by (simp add: validate_def split: if_splits)

lemma save_recomputed:
  assumes "save db d = Inr (db', b')"
    and "PDate \<in> modifiedPaths d \<or> PTime \<in> modifiedPaths d \<or> PDuration \<in> modifiedPaths d"
  obtains h m where "parse_hm (time (doc d)) = Some (h, m)"
    and "b' = (recomputed (doc d) h m)
                \<lparr>hasConflicts := checkConflicts db (recomputed (doc d) h m) \<noteq> [],
                 conflictsWith := map bid (checkConflicts db (recomputed (doc d) h m))\<rparr>"
    and "15 \<le> duration (doc d)"
  using assms
  by (auto simp: save_def pre_save_def Let_def recomputed_def validate_duration
           split: option.splits sum.splits if_splits)




subsection \<open>Create and reschedule against the no-double-booking invariant\<close>

lemmas route_defs = create_booking_def reschedule_booking_def reschedule_def bump_customer_def
  create_public_booking_def find_or_create_customer_def toLowerCase_def lower_char_def
  truthy_def update_booking_def parse_status_def


lemma reschedule_example:
  "reschedule [stored_booking 100 ''10:00'' 600 60 Pending,
               stored_booking 101 ''14:00'' 840 60 Pending]
     (jan15 - 3600000) (loaded (stored_booking 101 ''14:00'' 840 60 Pending))
     (jan15 + 630 * 60000) ''Rescheduled via calendar'' ByUser
   = Inr ([stored_booking 100 ''10:00'' 600 60 Pending, rescheduled_example],
          rescheduled_example)"
  by (simp add: route_defs example_defs rescheduled_example_def time_defs
        query_defs save_defs)

text \<open>
  C2. \<open>reschedule\<close> does not reject. With a pending booking of the same provider stored at
  10:00 to 11:00, moving booking 101 to 10:30 (so that \<open>[newStart, newStart + duration)\<close>
  overlaps it) returns the saved booking, and the stored booking is modified.
\<close>

theorem reschedule_onto_conflict_is_saved:
  "(let a = stored_booking 100 ''10:00'' 600 60 Pending;
        b = stored_booking 101 ''14:00'' 840 60 Pending
    in reschedule [a, b] (jan15 - 3600000) (loaded b) (jan15 + 630 * 60000)
         ''Rescheduled via calendar'' ByUser
       = Inr ([a, rescheduled_example], rescheduled_example)
       \<and> active (status a) \<and> userId a = userId b \<and> bid a \<noteq> bid b
       \<and> overlaps \<lparr>istart = jan15 + 630 * 60000,
                    iend = jan15 + 630 * 60000 + duration b * 60000\<rparr>
                   \<lparr>istart = jan15 + 600 * 60000, iend = jan15 + 660 * 60000\<rparr>)"
  using reschedule_example
  by (simp add: stored_booking_def active_def overlaps_def)


subsection \<open>Status updates\<close>

lemma pre_save_unmodified:
  "\<not> isNew d \<Longrightarrow> modifiedPaths d = {} \<Longrightarrow> pre_save db d = Inr d"
  by (simp add: pre_save_def)

lemma validate_status_upd: "validate (b\<lparr>status := v\<rparr>) = validate b"
  by (simp add: validate_def)

lemma find_bid:
  assumes "find (\<lambda>x. bid x = ident \<and> userId x = uid) bs = Some b"
  shows "bid b = ident"
  using assms by (auto simp: find_Some_iff)

text \<open>
  C5, as the code has it. For a stored booking that passes the validators and a request
  that carries only a status: a status of the enumeration is accepted whatever the current
  status is, and becomes the stored status; an empty status changes nothing; any other
  string is rejected as a validation error and the collections are unchanged. No
  transition between two statuses of the enumeration is refused.
\<close>

theorem update_status_unconstrained:
  assumes fnd: "find (\<lambda>x. bid x = ident \<and> userId x = uid) (bookings st) = Some b"
    and ok: "validate b = None"
  shows "update_booking st uid ident (status_only s)
         = (case parse_status s of
              Some v \<Rightarrow>
                (st\<lparr>bookings := map (\<lambda>x. if bid x = ident then b\<lparr>status := v\<rparr> else x)
                                    (bookings st)\<rparr>,
                 Inr (b\<lparr>status := v\<rparr>))
            | None \<Rightarrow>
                if s = [] then (st\<lparr>bookings := map (\<lambda>x. if bid x = ident then b else x)
                                                  (bookings st)\<rparr>, Inr b)
                else (st, Inl (ValidationError ''status'')))"
proof (cases "parse_status s")
  case None
  show ?thesis
  proof (cases "s = []")
    case True
    then show ?thesis
      using fnd ok None find_bid [OF fnd]
      by (simp add: update_booking_def status_only_def truthy_def save_def
            pre_save_unmodified validate_status_upd Let_def loaded_def)
  next
    case False
    then show ?thesis
      using fnd None
      by (simp add: update_booking_def status_only_def truthy_def Let_def)
  qed
next
  case (Some v)
  then have "s \<noteq> []" by (auto simp: parse_status_def)
  then show ?thesis
    using fnd ok Some find_bid [OF fnd]
    by (simp add: update_booking_def status_only_def truthy_def save_def
          pre_save_unmodified validate_status_upd Let_def loaded_def)
qed

text \<open>A cancelled booking is confirmed; the string \<open>done\<close> is refused.\<close>

theorem update_status_unconstrained_witness:
  "(let b = stored_booking 100 ''10:00'' 600 60 Cancelled;
        st = ex_state [b]
    in find (\<lambda>x. bid x = 100 \<and> userId x = 1) (bookings st) = Some b
       \<and> validate b = None
       \<and> update_booking st 1 100 (status_only ''confirmed'')
           = (st\<lparr>bookings := [b\<lparr>status := Confirmed\<rparr>]\<rparr>, Inr (b\<lparr>status := Confirmed\<rparr>))
       \<and> update_booking st 1 100 (status_only ''done'') = (st, Inl (ValidationError ''status'')))"
proof -
  let ?b = "stored_booking 100 ''10:00'' 600 60 Cancelled"
  let ?st = "ex_state [?b]"
  have f: "find (\<lambda>x. bid x = 100 \<and> userId x = 1) (bookings ?st) = Some ?b"
    by (simp add: example_defs)
  have v: "validate ?b = None"
    by (simp add: validate_def stored_booking_def is_digit_def)
  have p1: "parse_status ''confirmed'' = Some Confirmed" and p2: "parse_status ''done'' = None"
    by (simp_all add: parse_status_def)
  have b: "bid ?b = 100" by (simp add: stored_booking_def)
  show ?thesis
    using update_status_unconstrained [OF f v, of "''confirmed''"]
      update_status_unconstrained [OF f v, of "''done''"] f v p1 p2 b
    by (simp add: Let_def ex_state_def)
qed

text \<open>
  Against C5 as stated: a completed booking is set back to pending, a transition out of a
  terminal state that the state machine of the specification does not have.
\<close>

theorem completed_to_pending_accepted:
  "update_booking (ex_state [stored_booking 100 ''10:00'' 600 60 Completed]) 1 100
     (status_only ''pending'')
   = (ex_state [stored_booking 100 ''10:00'' 600 60 Pending],
      Inr (stored_booking 100 ''10:00'' 600 60 Pending))"
  by (simp add: route_defs status_only_def example_defs time_defs query_defs save_defs)

subsection \<open>Creation and the clock\<close>




subsection \<open>Available time slots\<close>

lemmas slot_defs = getAvailableTimeSlots_def available_slots_def existing_on_def day_hours_def
  getDay_def endOfDay_def slot_conflict_def date_lt_def date_gt_def
  ex_day_def ex_week_def ex_user_def






text \<open>
  C6, as the code has it. For a provider found with business hours whose entry for the
  day of the date has \<open>isOpen\<close> false, the operation answers with the date and an empty
  list of slots, and with nothing else.
\<close>

theorem closed_day_is_empty_list:
  assumes "find (\<lambda>u. u_id u = uid) (users st) = Some u" and "businessHours u = Some w"
    and "day_hours w (getDay d) = Some dh" and "\<not> isOpen dh"
  shows "available_slots st uid d dur = Inr (d, [])"
  using assms by (simp add: available_slots_def getAvailableTimeSlots_def)

theorem closed_day_is_empty_list_witness:
  "available_slots ((ex_state [])\<lparr>users := [ex_user (ex_day False)]\<rparr>) 1 jan15 (Some 30)
   = Inr (jan15, [])"
proof -
  let ?st = "(ex_state [])\<lparr>users := [ex_user (ex_day False)]\<rparr>"
  have 1: "find (\<lambda>u. u_id u = 1) (users ?st) = Some (ex_user (ex_day False))"
    by (simp add: ex_state_def ex_user_def)
  have 2: "businessHours (ex_user (ex_day False)) = Some (ex_week (ex_day False))"
    by (simp add: ex_user_def)
  have 3: "day_hours (ex_week (ex_day False)) (getDay jan15) = Some (ex_day False)"
    by (simp add: day_hours_def getDay_def jan15_def ex_week_def)
  have 4: "\<not> isOpen (ex_day False)"
    by (simp add: ex_day_def)
  show ?thesis by (rule closed_day_is_empty_list [OF 1 2 3 4])
qed

text \<open>
  Against C6 as stated: the response for a Monday on which the provider is closed equals
  the response for a Monday on which the provider is open from 09:00 to 17:00 and one
  pending booking fills the day. A caller cannot tell the two apart.
\<close>

theorem closed_day_indistinguishable:
  "available_slots ((ex_state [])\<lparr>users := [ex_user (ex_day False)]\<rparr>) 1 jan15 None
   = available_slots ((ex_state [stored_booking 100 ''09:00'' 540 480 Pending])
                        \<lparr>users := [ex_user (ex_day True)]\<rparr>) 1 jan15 None"
proof -
  have a: "available_slots ((ex_state [])\<lparr>users := [ex_user (ex_day False)]\<rparr>) 1 jan15 None
           = Inr (jan15, [])"
    by (simp add: slot_defs example_defs time_defs active_def)
  have b: "available_slots ((ex_state [stored_booking 100 ''09:00'' 540 480 Pending])
                        \<lparr>users := [ex_user (ex_day True)]\<rparr>) 1 jan15 None
           = Inr (jan15, [])"
    by (simp add: slot_defs slot_loop.simps example_defs time_defs active_def)
  from a b show ?thesis by simp
qed




subsection \<open>Recommendations\<close>

text \<open>Formatting a time of day and parsing it back.\<close>

lemma digit_char_cases:
  "digit_char k \<in> set ''0123456789''"
proof -
  have "k mod 10 = 0 \<or> k mod 10 = 1 \<or> k mod 10 = 2 \<or> k mod 10 = 3 \<or> k mod 10 = 4
        \<or> k mod 10 = 5 \<or> k mod 10 = 6 \<or> k mod 10 = 7 \<or> k mod 10 = 8 \<or> k mod 10 = 9"
    by arith
  then show ?thesis by (auto simp: digit_char_def)
qed

lemma digit_of_digit_char: "digit_of (digit_char k) = Some (k mod 10)"
proof -
  have "k mod 10 = 0 \<or> k mod 10 = 1 \<or> k mod 10 = 2 \<or> k mod 10 = 3 \<or> k mod 10 = 4
        \<or> k mod 10 = 5 \<or> k mod 10 = 6 \<or> k mod 10 = 7 \<or> k mod 10 = 8 \<or> k mod 10 = 9"
    by arith
  then show ?thesis by (auto simp: digit_char_def digit_of_def)
qed

lemma digits_val_append:
  "digits_val acc (xs @ ys)
   = (case digits_val acc xs of None \<Rightarrow> None | Some v \<Rightarrow> digits_val v ys)"
  by (induction xs arbitrary: acc) (auto split: option.splits)

lemma digits_val_toString: "digits_val 0 (toString n) = Some n"
proof (induction n rule: toString.induct)
  case (1 n)
  show ?case
  proof (cases "n < 10")
    case True
    then show ?thesis by (simp add: toString.simps [of n] digit_of_digit_char)
  next
    case False
    with 1 show ?thesis
      by (simp add: toString.simps [of n] digits_val_append digit_of_digit_char)
  qed
qed

lemma toString_digits: "set (toString n) \<subseteq> set ''0123456789''"
proof (induction n rule: toString.induct)
  case (1 n)
  show ?case
  proof (cases "n < 10")
    case True
    then show ?thesis using digit_char_cases [of n] by (simp add: toString.simps [of n])
  next
    case False
    with 1 show ?thesis using digit_char_cases [of n] by (simp add: toString.simps [of n])
  qed
qed

lemma digits_val_zeros: "digits_val 0 (replicate k CHR ''0'' @ s) = digits_val 0 s"
  by (induction k) (simp_all add: digit_of_def)

lemma Number_padStart2: "Number (padStart2 (toString n)) = Some (int n)"
  by (simp add: Number_def padStart2_def digits_val_zeros digits_val_toString)

lemma padStart2_no_colon: "CHR '':'' \<notin> set (padStart2 (toString n))"
  using toString_digits [of n] by (auto simp: padStart2_def)

lemma split_colon_no_colon: "CHR '':'' \<notin> set s \<Longrightarrow> split_colon s = [s]"
  by (induction s) auto

lemma split_colon_append:
  "CHR '':'' \<notin> set a \<Longrightarrow> split_colon (a @ CHR '':'' # b) = a # split_colon b"
  by (induction a) auto

lemma parse_hm_fmt:
  "parse_hm (padStart2 (toString h) @ CHR '':'' # padStart2 (toString m)) = Some (int h, int m)"
  by (simp add: parse_hm_def split_colon_append split_colon_no_colon padStart2_no_colon
        Number_padStart2)




























subsection \<open>What a reschedule stores, and who can be a conflict\<close>

lemma truncate_to_minute:
  "setHours (startOfDay x) ((x mod 86400000) div 3600000) ((x mod 3600000) div 60000)
   = x - x mod 60000"
proof -
  have a: "(x mod 86400000) mod 3600000 = x mod 3600000"
    by (rule mod_mod_cancel) simp
  have b: "(x mod 3600000) mod 60000 = x mod 60000"
    by (rule mod_mod_cancel) simp
  have c: "((x mod 86400000) div 3600000) * 3600000 + (x mod 86400000) mod 3600000
           = x mod 86400000"
    by (rule div_mult_mod_eq)
  have d: "((x mod 3600000) div 60000) * 60000 + (x mod 3600000) mod 60000 = x mod 3600000"
    by (rule div_mult_mod_eq)
  have e: "startOfDay (startOfDay x) = startOfDay x"
    by (simp add: startOfDay_def)
  show ?thesis
    unfolding setHours_def e using a b c d by (simp add: startOfDay_def)
qed

lemma parse_timeString_of:
  "parse_hm (timeString_of x)
   = Some ((x mod 86400000) div 3600000, (x mod 3600000) div 60000)"
proof -
  have "0 \<le> (x mod 86400000) div 3600000" "0 \<le> (x mod 3600000) div 60000"
    by (simp_all add: pos_imp_zdiv_nonneg_iff)
  then show ?thesis
    by (simp add: timeString_of_def parse_hm_fmt)
qed

text \<open>
  A reschedule that is saved keeps the previous interval as the original one, starts
  the booking at the new start cut to the whole minute (the hook recomputes the start from
  the date and the \<open>HH:MM\<close> string), ends it one unchanged duration later, records when,
  by whom and why, and leaves the status as it was.
\<close>

theorem reschedule_success:
  assumes "reschedule db now d newStart why who = Inr (db', b')"
  shows "originalStartDateTime b' = startDateTime (doc d)
         \<and> originalEndDateTime b' = endDateTime (doc d)
         \<and> startDateTime b' = Some (newStart - newStart mod 60000)
         \<and> endDateTime b' = Some (newStart - newStart mod 60000 + duration (doc d) * 60000)
         \<and> duration b' = duration (doc d) \<and> status b' = status (doc d)
         \<and> rescheduledAt b' = Some now \<and> rescheduledBy b' = Some who
         \<and> rescheduleReason b' = Some why"
proof -
  let ?b = "(doc d)\<lparr>originalStartDateTime := startDateTime (doc d),
                 originalEndDateTime := endDateTime (doc d),
                 startDateTime := Some newStart,
                 endDateTime := Some (newStart + duration (doc d) * 60000),
                 date := startOfDay newStart,
                 time := timeString_of newStart,
                 rescheduledAt := Some now,
                 rescheduledBy := Some who,
                 rescheduleReason := Some why\<rparr>"
  let ?d = "d\<lparr>doc := ?b,
             modifiedPaths := modifiedPaths d \<union> {PStartDateTime, PEndDateTime, PDate, PTime}\<rparr>"
  from assms have sv: "save db ?d = Inr (db', b')"
    by (simp add: reschedule_def Let_def)
  have md: "PDate \<in> modifiedPaths ?d \<or> PTime \<in> modifiedPaths ?d
            \<or> PDuration \<in> modifiedPaths ?d"
    by simp
  from sv md obtain h m where hm: "parse_hm (time (doc ?d)) = Some (h, m)"
    and b': "b' = (recomputed (doc ?d) h m)
                    \<lparr>hasConflicts := checkConflicts db (recomputed (doc ?d) h m) \<noteq> [],
                     conflictsWith := map bid (checkConflicts db (recomputed (doc ?d) h m))\<rparr>"
    by (rule save_recomputed)
  from hm have h: "h = (newStart mod 86400000) div 3600000"
    and m: "m = (newStart mod 3600000) div 60000"
    by (simp_all add: parse_timeString_of)
  have "setHours (date (doc ?d)) h m = newStart - newStart mod 60000"
    using truncate_to_minute [of newStart] by (simp add: h m)
  then show ?thesis
    by (simp add: b' recomputed_def)
qed

theorem reschedule_success_witness:
  "originalStartDateTime rescheduled_example = Some (jan15 + 840 * 60000)
   \<and> originalEndDateTime rescheduled_example = Some (jan15 + 900 * 60000)
   \<and> startDateTime rescheduled_example = Some (jan15 + 630 * 60000)
   \<and> endDateTime rescheduled_example = Some (jan15 + 690 * 60000)
   \<and> status rescheduled_example = Pending
   \<and> rescheduledBy rescheduled_example = Some ByUser"
  using reschedule_success [OF reschedule_example]
  by (simp add: loaded_def stored_booking_def jan15_def)

text \<open>
  Whatever is stored, the conflict query returns only bookings of the same provider,
  other than the booking itself, that are pending, confirmed or in progress: a cancelled
  booking, like a completed one, is never reported as a conflict.
\<close>

theorem conflicts_are_active_others:
  "\<forall>b\<in>set (checkConflicts db this).
     userId b = userId this \<and> bid b \<noteq> bid this \<and> active (status b)
     \<and> status b \<noteq> Cancelled \<and> status b \<noteq> Completed"
  by (auto simp: checkConflicts_def conflict_query_def active_def)

theorem conflicts_are_active_others_witness:
  "checkConflicts [stored_booking 100 ''10:00'' 600 60 Cancelled,
                   stored_booking 101 ''10:00'' 600 60 Confirmed]
     (stored_booking 102 ''10:00'' 600 60 Pending)
   = [stored_booking 101 ''10:00'' 600 60 Confirmed]
   \<and> active (status (stored_booking 101 ''10:00'' 600 60 Confirmed))"
  using conflicts_are_active_others
    [of "[stored_booking 100 ''10:00'' 600 60 Cancelled,
          stored_booking 101 ''10:00'' 600 60 Confirmed]"
        "stored_booking 102 ''10:00'' 600 60 Pending"]
  by (simp add: query_defs stored_booking_def)

end
